theory Spec2Isabelle
  imports Main "HOL-Library.Sublist"
begin

section \<open>Strings\<close>

text \<open>
  A Python \<^verbatim>\<open>str\<close> is a \<^typ>\<open>string\<close> whose characters are the code points below 256.
  \<^verbatim>\<open>needle in hay\<close>, \<^verbatim>\<open>s.split(sep)\<close> for a one-character separator, \<^verbatim>\<open>s.lower()\<close>
  and the class \<^verbatim>\<open>\s\<close> of the \<^verbatim>\<open>re\<close> module are written out on that alphabet.
\<close>

fun str_in :: "string \<Rightarrow> string \<Rightarrow> bool" where
  "str_in needle [] = (needle = [])"
| "str_in needle (c # cs) = (prefix needle (c # cs) \<or> str_in needle cs)"

fun split_on :: "char \<Rightarrow> string \<Rightarrow> string list" where
  "split_on sep [] = [[]]"
| "split_on sep (c # cs) =
     (if c = sep then [] # split_on sep cs
      else (case split_on sep cs of
              [] \<Rightarrow> [[c]]
            | p # ps \<Rightarrow> (c # p) # ps))"

definition lower_char :: "char \<Rightarrow> char" where
  "lower_char c =
     (let n = (of_char c :: nat)
      in if (65 \<le> n \<and> n \<le> 90) \<or> (192 \<le> n \<and> n \<le> 222 \<and> n \<noteq> 215)
         then char_of (n + 32) else c)"

definition lower :: "string \<Rightarrow> string" where
  "lower s = map lower_char s"

definition is_space :: "char \<Rightarrow> bool" where
  "is_space c = ((of_char c :: nat) \<in> set [9, 10, 11, 12, 13, 28, 29, 30, 31, 32, 133, 160])"

definition newline :: char where
  "newline = CHR 0x0A"

text \<open>
  \<^verbatim>\<open>re.match(r".*KEY\s*VAL", s)\<close> for literal \<^verbatim>\<open>KEY\<close> and \<^verbatim>\<open>VAL\<close>: the match is anchored at
  the start of \<open>s\<close>, \<^verbatim>\<open>.\<close> takes any character but a line feed, and \<^verbatim>\<open>\s*\<close> may stop after
  any number of the white-space characters that follow \<^verbatim>\<open>KEY\<close>.
\<close>

definition match_decl_here :: "string \<Rightarrow> string \<Rightarrow> string \<Rightarrow> bool" where
  "match_decl_here key val s =
     (prefix key s \<and>
      (let r = drop (length key) s
       in list_ex (\<lambda>n. prefix val (drop n r)) [0 ..< Suc (length (takeWhile is_space r))]))"

fun re_match_decl :: "string \<Rightarrow> string \<Rightarrow> string \<Rightarrow> bool" where
  "re_match_decl key val [] = match_decl_here key val []"
| "re_match_decl key val (c # cs) =
     (match_decl_here key val (c # cs) \<or> (c \<noteq> newline \<and> re_match_decl key val cs))"

section \<open>Tags, properties, exceptions and the log\<close>

text \<open>
  A \<^verbatim>\<open>bs4.Tag\<close> as far as the module reads it: its name and its attribute dictionary
  (\<^verbatim>\<open>tag.get(k)\<close> is \<open>tag_get\<close>). A text property is a tuple of strings, such as
  \<^verbatim>\<open>("b",)\<close> or \<^verbatim>\<open>("a", url)\<close>. A handler of \<^verbatim>\<open>tag_map\<close> returns \<^verbatim>\<open>None\<close>, one tuple
  or a list of tuples.
\<close>

record tag =
  name :: string
  attrs :: "(string \<times> string) list"

definition tag_get :: "tag \<Rightarrow> string \<Rightarrow> string option" where
  "tag_get tg k = map_of (attrs tg) k"

type_synonym property = "string list"

datatype tag_result = PyNone | PyTuple property | PyList "property list"

definition truthy :: "tag_result \<Rightarrow> bool" where
  "truthy r = (case r of PyNone \<Rightarrow> False | PyTuple p \<Rightarrow> p \<noteq> [] | PyList ps \<Rightarrow> ps \<noteq> [])"

datatype exception = IndexError | KeyError string | Raised string

definition exc_str :: "exception \<Rightarrow> string" where
  "exc_str e =
     (case e of
        IndexError \<Rightarrow> ''list index out of range''
      | KeyError k \<Rightarrow> [CHR 0x27] @ k @ [CHR 0x27]
      | Raised m \<Rightarrow> m)"

datatype level = Debug | Warning | Error

type_synonym log_record = "level \<times> string"

text \<open>
  One page of the search results, as \<^verbatim>\<open>_get_notion_url_from_title\<close> reads it:
  \<open>page_title\<close> holds the \<^verbatim>\<open>plain_text\<close> of the items of
  \<^verbatim>\<open>result["properties"]["Title"]["title"]\<close>, or \<open>None\<close> when the page has no
  \<^verbatim>\<open>Title\<close> property; \<open>page_url\<close> is \<^verbatim>\<open>result["url"]\<close>.
\<close>

record page =
  page_title :: "string list option"
  page_url :: string

text \<open>
  What the module takes from outside itself: the dictionary that \<^verbatim>\<open>json.load\<close> reads from
  \<^verbatim>\<open>args.links_dict\<close> (its items in iteration order, or the exception that opening or
  reading the file raises), the search request of the Notion client as a function of the
  query string (the list under \<^verbatim>\<open>"results"\<close>, or the exception raised), \<^verbatim>\<open>html.unescape\<close>,
  and \<^verbatim>\<open>extract_color\<close> of \<^verbatim>\<open>enex2notion.utils_colors\<close>.
\<close>

record env =
  links_dict :: "exception + (string \<times> string) list"
  notion_search :: "string \<Rightarrow> exception + page list"
  html_unescape :: "string \<Rightarrow> string"
  extract_color :: "string \<Rightarrow> string option"

section \<open>string\_extractor\_properties.py\<close>

text \<open>\<^verbatim>\<open>_resolve_span\<close>\<close>

definition resolve_span :: "env \<Rightarrow> tag \<Rightarrow> property list" where
  "resolve_span env tg =
     (case tag_get tg ''style'' of
        None \<Rightarrow> []
      | Some style \<Rightarrow>
          if style = [] then []
          else (case extract_color env style of
                  Some color \<Rightarrow> [[''h'', color]]
                | None \<Rightarrow> [])
             @ (if re_match_decl ''font-weight:'' ''bold'' style then [[''b'']] else [])
             @ (if re_match_decl ''font-style:'' ''italic'' style then [[''i'']] else []))"

text \<open>\<^verbatim>\<open>_get_evernote_title\<close>; \<open>index_neg2\<close> is the subscript \<^verbatim>\<open>[-2]\<close>.\<close>

definition index_neg2 :: "'a list \<Rightarrow> exception + 'a" where
  "index_neg2 xs = (if length xs < 2 then Inl IndexError else Inr (xs ! (length xs - 2)))"

definition get_evernote_title :: "env \<Rightarrow> string \<Rightarrow> exception + string" where
  "get_evernote_title env evernote_url =
     (case links_dict env of
        Inl e \<Rightarrow> Inl e
      | Inr translation_dict \<Rightarrow>
          if evernote_url \<in> set (map fst translation_dict)
          then (case map_of translation_dict evernote_url of
                  Some v \<Rightarrow> Inr v
                | None \<Rightarrow> Inl (KeyError evernote_url))
          else (case index_neg2 (split_on CHR ''/'' evernote_url) of
                  Inl e \<Rightarrow> Inl e
                | Inr seg \<Rightarrow>
                    (let evernote_id = lower seg
                     in case [v. (k, v) \<leftarrow> translation_dict, str_in evernote_id (lower k)] of
                          [] \<Rightarrow> Inl IndexError
                        | v # _ \<Rightarrow> Inr v)))"

text \<open>\<^verbatim>\<open>_get_notion_url_from_title\<close>; \<open>first_exact\<close> is its loop over the results.\<close>

definition result_title :: "page \<Rightarrow> exception + string" where
  "result_title r =
     (case page_title r of
        None \<Rightarrow> Inl (KeyError ''Title'')
      | Some [] \<Rightarrow> Inl IndexError
      | Some (t # _) \<Rightarrow> Inr t)"

fun first_exact :: "string \<Rightarrow> page list \<Rightarrow> exception + string option" where
  "first_exact title [] = Inr None"
| "first_exact title (r # rs) =
     (case result_title r of
        Inl e \<Rightarrow> Inl e
      | Inr t \<Rightarrow> if t = title then Inr (Some (page_url r)) else first_exact title rs)"

definition get_notion_url_from_title :: "env \<Rightarrow> string \<Rightarrow> exception + string option" where
  "get_notion_url_from_title env title0 =
     (let title = html_unescape env title0
      in case notion_search env ([CHR 0x22] @ title @ [CHR 0x22]) of
           Inl e \<Rightarrow> Inl e
         | Inr results \<Rightarrow> first_exact title results)"

text \<open>\<^verbatim>\<open>_get_notion_url\<close>\<close>

definition get_notion_url :: "env \<Rightarrow> string \<Rightarrow> exception + string option" where
  "get_notion_url env evernote_url =
     (case get_evernote_title env evernote_url of
        Inl e \<Rightarrow> Inl e
      | Inr title \<Rightarrow> get_notion_url_from_title env title)"

text \<open>
  \<^verbatim>\<open>_resolve_link\<close>, with the records it sends to the logger. The \<^verbatim>\<open>except\<close> branch logs
  and has no \<^verbatim>\<open>return\<close>, so control reaches the final \<^verbatim>\<open>return None\<close>.
\<close>

definition resolve_link :: "env \<Rightarrow> tag \<Rightarrow> tag_result \<times> log_record list" where
  "resolve_link env tg =
     (case tag_get tg ''href'' of
        None \<Rightarrow> (PyNone, [])
      | Some evernote_url \<Rightarrow>
          if evernote_url = [] then (PyNone, [])
          else if str_in ''evernote://'' evernote_url
          then (case get_notion_url env evernote_url of
                  Inr None \<Rightarrow>
                    (PyTuple [''a'', evernote_url],
                     [(Error, ''Notion URL retrieval failed: '' @ evernote_url)])
                | Inr (Some notion_url) \<Rightarrow> (PyTuple [''a'', notion_url], [])
                | Inl e \<Rightarrow>
                    (PyNone,
                     [(Error, ''Notion URL retrieval failed: '' @ evernote_url
                              @ '' with exception '' @ exc_str e)]))
          else (PyTuple [''a'', evernote_url], []))"

text \<open>
  \<^verbatim>\<open>resolve_string_properties\<close>: \<open>tag_map\<close> is its dictionary of handlers,
  \<open>resolve_loop\<close> its loop over the tags with the set built so far (and the log).
\<close>

definition tag_map :: "env \<Rightarrow> string \<Rightarrow> (tag \<Rightarrow> tag_result \<times> log_record list) option" where
  "tag_map env =
     map_of
       [(''b'', \<lambda>e. (PyTuple [''b''], [])),
        (''i'', \<lambda>e. (PyTuple [''i''], [])),
        (''u'', \<lambda>e. (PyTuple [''_''], [])),
        (''s'', \<lambda>e. (PyTuple [''s''], [])),
        (''span'', \<lambda>e. (PyList (resolve_span env e), [])),
        (''a'', resolve_link env)]"

definition add_property :: "tag_result \<Rightarrow> property set \<Rightarrow> property set" where
  "add_property r properties =
     (if truthy r
      then (case r of
              PyList ps \<Rightarrow> properties \<union> set ps
            | PyTuple p \<Rightarrow> insert p properties
            | PyNone \<Rightarrow> properties)
      else properties)"

fun resolve_loop ::
  "env \<Rightarrow> tag list \<Rightarrow> property set \<times> log_record list \<Rightarrow> property set \<times> log_record list" where
  "resolve_loop env [] acc = acc"
| "resolve_loop env (tg # tags) (properties, lg) =
     (case tag_map env (name tg) of
        None \<Rightarrow> resolve_loop env tags (properties, lg)
      | Some handler \<Rightarrow>
          (case handler tg of
             (tag_property, l) \<Rightarrow>
               resolve_loop env tags (add_property tag_property properties, lg @ l)))"

definition resolve_string_properties :: "env \<Rightarrow> tag list \<Rightarrow> property set \<times> log_record list" where
  "resolve_string_properties env tags = resolve_loop env tags ({}, [])"

section \<open>Auxiliary notions for the statements\<close>

text \<open>The properties one tag adds to the set, whatever the set held before.\<close>

definition tag_properties :: "env \<Rightarrow> tag \<Rightarrow> property set" where
  "tag_properties env tg =
     (case tag_map env (name tg) of
        None \<Rightarrow> {}
      | Some handler \<Rightarrow> add_property (fst (handler tg)) {})"


section \<open>Environments used in the examples\<close>

text \<open>
  \<open>plain_env\<close>: an empty link dictionary, a search that finds nothing, titles without
  character references, and a colour extractor that knows one declaration.
\<close>

definition plain_env :: env where
  "plain_env =
     \<lparr>links_dict = Inr [],
      notion_search = (\<lambda>q. Inr []),
      html_unescape = (\<lambda>s. s),
      extract_color = (\<lambda>style. if str_in ''color: red'' style then Some ''red'' else None)\<rparr>"

text \<open>
  \<open>links_env\<close>: three links with titles; the search returns two pages; \<^verbatim>\<open>html.unescape\<close>
  on the titles used here (it replaces the character reference \<^verbatim>\<open>&amp;\<close> by \<^verbatim>\<open>&\<close>).
\<close>

definition links_env :: env where
  "links_env =
     \<lparr>links_dict =
        Inr [(''evernote:///view/1/s1/AAA-1/AAA-1/'', ''First''),
             (''evernote:///view/1/s1/ABC-2/ABC-2/'', ''Second''),
             (''evernote:///view/9/s9/abc-2/abc-2/'', ''Third'')],
      notion_search =
        (\<lambda>q. Inr [\<lparr>page_title = Some [''Other''], page_url = ''https://www.notion.so/p0''\<rparr>,
                  \<lparr>page_title = Some [''A & B''], page_url = ''https://www.notion.so/p1''\<rparr>]),
      html_unescape = (\<lambda>s. if s = ''A &amp; B'' then ''A & B'' else s),
      extract_color = (\<lambda>style. None)\<rparr>"

text \<open>\<open>id_keys_env\<close>: a link dictionary whose keys are bare identifiers.\<close>

definition id_keys_env :: env where
  "id_keys_env =
     \<lparr>links_dict = Inr [(''xabcx'', ''wrong''), (''abc'', ''right'')],
      notion_search = (\<lambda>q. Inr []),
      html_unescape = (\<lambda>s. s),
      extract_color = (\<lambda>style. None)\<rparr>"

section \<open>The note parser, modelled from the specification\<close>

text \<open>
  Only \<^verbatim>\<open>string_extractor_properties.py\<close> and the tests of the note parser are among the
  sources; \<^verbatim>\<open>enex2notion.note_parser\<close>, \<^verbatim>\<open>enex2notion.note_parser_dom\<close>,
  \<^verbatim>\<open>enex2notion.notion_blocks\<close> and \<^verbatim>\<open>enex2notion.enex_parser\<close> are not. The definitions of
  this section follow the specification, and the tests of \<^verbatim>\<open>tests/test_note_parser.py\<close> are
  stated for them further down.
\<close>

subsection \<open>Blocks and nodes\<close>

text \<open>
  Modelled from the spec: the variants of an embedded-media block, by mime type (section
  4.4, rule 8; the classes of \<^verbatim>\<open>enex2notion.notion_blocks_uploadable\<close> are missing).
\<close>

datatype media =
    NotionImageBlock
  | NotionVideoBlock
  | NotionAudioBlock
  | NotionPDFBlock
  | NotionFileBlock

text \<open>
  Modelled from the spec: the resource record of section 3 (\<^verbatim>\<open>EvernoteResource\<close> of the
  missing \<^verbatim>\<open>enex2notion.enex_parser\<close>): content hash, mime type and size in bytes.
\<close>

record resource =
  res_hash :: string
  res_mime :: string
  res_size :: nat

text \<open>
  Modelled from the spec: the variant-specific payload of a block (section 3; the classes
  of \<^verbatim>\<open>enex2notion.notion_blocks\<close> are missing), for the variants met here: a text, an
  embedded medium with its variant, its content hash and the resource once it is resolved,
  a table with its rows of cell texts, and a callout, of which only the text is kept.
\<close>

datatype payload =
    NotionTextBlock string
  | NotionUploadableBlock media string "resource option"
  | NotionTableBlock "string list list"
  | NotionCalloutBlock string

text \<open>
  Modelled from the spec: the block of section 3 (\<^verbatim>\<open>NotionBaseBlock\<close> of the missing
  \<^verbatim>\<open>enex2notion.notion_blocks\<close>), a payload with an ordered list of owned child blocks.
\<close>

datatype block = Block payload "block list"

text \<open>
  Modelled from the spec: a table cell as the table builder of section 4.6 reads it (the
  markup tree of \<^verbatim>\<open>bs4\<close> under the missing \<^verbatim>\<open>parse_note_dom\<close>): its text and its column span,
  1 when the attribute is absent.
\<close>

record cell =
  cell_text :: string
  colspan :: nat

text \<open>
  Modelled from the spec: the root-level nodes that the dispatcher of section 4.4 tells
  apart here (the markup tree of \<^verbatim>\<open>bs4\<close> under the missing \<^verbatim>\<open>parse_note_dom\<close>): a text
  element with its left indentation in pixels (0 when the style has none) and its text, an
  embedded-media element with its mime type and content hash, and a table.
\<close>

datatype node =
    Div nat string
  | EnMedia string string
  | TableNode "cell list list"

subsection \<open>Tables\<close>

text \<open>
  Modelled from the spec: the expansion of a cell by its column span in the table builder
  of section 4.6 (missing with \<^verbatim>\<open>parse_note_dom\<close>): the cell is followed by empty-text
  placeholders up to its span.
\<close>

definition expand_cell :: "cell \<Rightarrow> string list" where
  "expand_cell c = cell_text c # replicate (colspan c - 1) []"

text \<open>
  Modelled from the spec: one row of the grid of the table builder of section 4.6 (missing
  with \<^verbatim>\<open>parse_note_dom\<close>), the expanded cells of the row in order.
\<close>

definition row_cells :: "cell list \<Rightarrow> string list" where
  "row_cells r = concat (map expand_cell r)"

text \<open>
  Modelled from the spec: the maximum row column count of section 8 (table padding;
  missing with \<^verbatim>\<open>parse_note_dom\<close>).
\<close>

definition longest_row :: "string list list \<Rightarrow> nat" where
  "longest_row rows = foldr max (map length rows) 0"

text \<open>
  Modelled from the spec: the padding of a short row on the right with empty-text cells
  (sections 4.6 and 8; missing with \<^verbatim>\<open>parse_note_dom\<close>).
\<close>

definition pad_row :: "nat \<Rightarrow> string list \<Rightarrow> string list" where
  "pad_row n r = r @ replicate (n - length r) []"

text \<open>
  Modelled from the spec: the table builder of section 4.6 (missing with
  \<^verbatim>\<open>parse_note_dom\<close>): the rows of expanded cells, each padded to the longest of them.
\<close>

definition table_rows :: "cell list list \<Rightarrow> string list list" where
  "table_rows t = (let rows = map row_cells t in map (pad_row (longest_row rows)) rows)"

subsection \<open>The dispatcher\<close>

text \<open>
  Modelled from the spec: rule 8 of the dispatcher (section 4.4, missing with
  \<^verbatim>\<open>parse_note_dom\<close>), the variant of an embedded-media block by its mime type.
\<close>

definition media_of :: "string \<Rightarrow> media" where
  "media_of mime =
     (if prefix ''image'' mime then NotionImageBlock
      else if prefix ''video'' mime then NotionVideoBlock
      else if prefix ''audio'' mime then NotionAudioBlock
      else if mime = ''application/pdf'' then NotionPDFBlock
      else NotionFileBlock)"

text \<open>
  Modelled from the spec: the dispatcher of section 4.4 on the three kinds of node (missing
  with \<^verbatim>\<open>parse_note_dom\<close>); it gives the block and its indentation in steps of 40 pixels.
  A media block leaves the dispatcher with its content hash and no resource, as
  \<^verbatim>\<open>test_embedded_media\<close> expects of \<^verbatim>\<open>parse_note_dom\<close>.
\<close>

definition dispatch :: "node \<Rightarrow> block \<times> nat" where
  "dispatch n =
     (case n of
        Div px t \<Rightarrow> (Block (NotionTextBlock t) [], px div 40)
      | EnMedia mime h \<Rightarrow> (Block (NotionUploadableBlock (media_of mime) h None) [], 0)
      | TableNode rows \<Rightarrow> (Block (NotionTableBlock (table_rows rows)) [], 0))"

subsection \<open>The indentation hierarchy builder\<close>

text \<open>
  Modelled from the spec: the attachment of a block in the indentation hierarchy builder of
  section 4.5 (missing with \<^verbatim>\<open>parse_note_dom\<close>). The stack of open ancestors is the chain
  of last children of the forest built so far: \<open>attach l b\<close> goes down \<open>l\<close> levels along
  it, as far as it reaches, and adds \<open>b\<close> as the last block there.
\<close>

fun attach :: "nat \<Rightarrow> block \<Rightarrow> block list \<Rightarrow> block list" where
  "attach 0 b forest = forest @ [b]"
| "attach (Suc l) b [] = [b]"
| "attach (Suc l) b (x # xs) =
     (case last (x # xs) of
        Block p cs \<Rightarrow> butlast (x # xs) @ [Block p (attach l b cs)])"

text \<open>
  Modelled from the spec: the empty-text root block that anchors a first block with
  nonzero indentation (section 4.5, last rule; missing with \<^verbatim>\<open>parse_note_dom\<close>).
\<close>

definition ensure_root :: "block list \<Rightarrow> block list" where
  "ensure_root forest = (if forest = [] then [Block (NotionTextBlock []) []] else forest)"

text \<open>
  Modelled from the spec: the distinction of section 4.5 between an increase by one step
  and a jump by more than one step (missing with \<^verbatim>\<open>parse_note_dom\<close>): a sequence of
  indentation levels is consistent when no level is more than one above the level before
  it, the level before the first being 0.
\<close>

fun consistent :: "nat \<Rightarrow> nat list \<Rightarrow> bool" where
  "consistent prev [] = True"
| "consistent prev (l # ls) = (l \<le> Suc prev \<and> consistent l ls)"

text \<open>
  Modelled from the spec: one step of the builder of section 4.5 in a sequence without a
  jump (missing with \<^verbatim>\<open>parse_note_dom\<close>): a block without indentation goes to the root, an
  indented block to the level of its indentation.
\<close>

definition nest_step :: "block list \<Rightarrow> block \<times> nat \<Rightarrow> block list" where
  "nest_step forest item =
     (case item of
        (b, l) \<Rightarrow> if l = 0 then forest @ [b] else attach l b (ensure_root forest))"

text \<open>
  Modelled from the spec: the literal leading spaces of section 4.5 before the text of a
  block (missing with \<^verbatim>\<open>parse_note_dom\<close>). The spec's count, \<open>(steps - 1) * 4\<close>, is not
  the count of \<^verbatim>\<open>test_indented_messed\<close>, which expects eight spaces at 80 pixels and four
  at 40 pixels; the model follows the test: four spaces for each step.
\<close>

definition indent_text :: "nat \<Rightarrow> block \<Rightarrow> block" where
  "indent_text l b =
     (case b of
        Block (NotionTextBlock t) cs \<Rightarrow>
          Block (NotionTextBlock (replicate (4 * l) CHR '' '' @ t)) cs
      | _ \<Rightarrow> b)"

text \<open>
  Modelled from the spec: one step of the builder of section 4.5 in a sequence with a jump
  (missing with \<^verbatim>\<open>parse_note_dom\<close>): an indented block is nested one level deep, its text
  after the leading spaces. As \<^verbatim>\<open>test_indented_messed\<close> expects, this holds for every
  indented block of such a sequence, the block after the jump included.
\<close>

definition plain_step :: "block list \<Rightarrow> block \<times> nat \<Rightarrow> block list" where
  "plain_step forest item =
     (case item of
        (b, l) \<Rightarrow>
          if l = 0 then forest @ [b] else attach 1 (indent_text l b) (ensure_root forest))"

text \<open>
  Modelled from the spec: the indentation hierarchy builder of section 4.5 over a sequence
  of sibling blocks with their indentation levels (missing with \<^verbatim>\<open>parse_note_dom\<close>).
\<close>

definition group_blocks_by_indent :: "(block \<times> nat) list \<Rightarrow> block list" where
  "group_blocks_by_indent items =
     (if consistent 0 (map snd items) then foldl nest_step [] items
      else foldl plain_step [] items)"

text \<open>
  Modelled from the spec: \<^verbatim>\<open>parse_note_dom\<close> (missing), the root-level traversal of
  section 4.7: every node is dispatched and the blocks are grouped by indentation.
\<close>

definition parse_note_dom :: "node list \<Rightarrow> block list" where
  "parse_note_dom nodes = group_blocks_by_indent (map dispatch nodes)"

subsection \<open>Resources and the note\<close>

text \<open>
  Modelled from the spec: the resolution of embedded media by reference (section 4.3, path
  a, and the failure semantics of section 4.7; \<^verbatim>\<open>parse_note\<close> is missing). The content hash
  of a media block is looked up in the resource table of the note; a block whose hash is
  absent is left out, with a warning, and the walk goes on with its siblings.
\<close>

fun resolve_resources ::
  "(string \<times> resource) list \<Rightarrow> block list \<Rightarrow> block list \<times> log_record list" where
  "resolve_resources table [] = ([], [])"
| "resolve_resources table (Block (NotionUploadableBlock k h None) cs # bs) =
     (case map_of table h of
        None \<Rightarrow>
          (case resolve_resources table bs of
             (bs', lg) \<Rightarrow> (bs', (Warning, ''Failed to resolve resource'') # lg))
      | Some r \<Rightarrow>
          (case resolve_resources table cs of
             (cs', l1) \<Rightarrow>
               (case resolve_resources table bs of
                  (bs', l2) \<Rightarrow>
                    (Block (NotionUploadableBlock k h (Some r)) cs' # bs', l1 @ l2))))"
| "resolve_resources table (Block p cs # bs) =
     (case resolve_resources table cs of
        (cs', l1) \<Rightarrow>
          (case resolve_resources table bs of
             (bs', l2) \<Rightarrow> (Block p cs' # bs', l1 @ l2)))"

text \<open>
  Modelled from the spec: the note that the orchestrator of section 4.7 consumes
  (\<^verbatim>\<open>EvernoteNote\<close> of the missing \<^verbatim>\<open>enex2notion.enex_parser\<close>), with its resource table by
  content hash.
\<close>

record evernote_note =
  note_title :: string
  note_created :: string
  note_updated :: string
  note_content :: string
  note_tags :: "string list"
  note_url :: string
  note_resources :: "(string \<times> resource) list"

text \<open>
  Modelled from the spec: the comma-joined tag list of the metadata block (section 4.7;
  missing with \<^verbatim>\<open>parse_note\<close>); \<open>join sep\<close> is \<^verbatim>\<open>sep.join\<close>.
\<close>

fun join :: "string \<Rightarrow> string list \<Rightarrow> string" where
  "join sep [] = []"
| "join sep [x] = x"
| "join sep (x # y # ys) = x @ sep @ join sep (y # ys)"

text \<open>
  Modelled from the spec: the metadata callout of section 4.7 (missing with
  \<^verbatim>\<open>parse_note\<close>): the creation time, the update time, the URL when it is not empty, and the
  tags, each on its own line.
\<close>

definition meta_block :: "evernote_note \<Rightarrow> block" where
  "meta_block n =
     Block (NotionCalloutBlock
              (''Created: '' @ note_created n @ [newline]
               @ ''Updated: '' @ note_updated n @ [newline]
               @ (if note_url n = [] then [] else ''URL: '' @ note_url n @ [newline])
               @ ''Tags: '' @ join '', '' (note_tags n))) []"

text \<open>
  Modelled from the spec: the top-level orchestrator \<^verbatim>\<open>parse_note\<close> of section 4.7
  (\<^verbatim>\<open>enex2notion.note_parser\<close> is missing). Parsing the markup into a tree is the work of
  \<^verbatim>\<open>bs4\<close>: \<open>parse_markup\<close> gives the root-level nodes, or \<open>None\<close> for markup that cannot be
  parsed as a tree; then an error is logged and the forest is empty.
\<close>

definition parse_note ::
  "(string \<Rightarrow> node list option) \<Rightarrow> evernote_note \<Rightarrow> bool \<Rightarrow> block list \<times> log_record list" where
  "parse_note parse_markup n with_meta =
     (case parse_markup (note_content n) of
        None \<Rightarrow> ([], [(Error, ''Failed to extract'')])
      | Some nodes \<Rightarrow>
          (case resolve_resources (note_resources n) (parse_note_dom nodes) of
             (blocks, lg) \<Rightarrow> ((if with_meta then [meta_block n] else []) @ blocks, lg)))"

subsection \<open>Notions for the statements about the builder\<close>






subsection \<open>The inputs and the expected values of the tests\<close>

text \<open>
  The inputs and the expected forests of \<^verbatim>\<open>test_indented\<close>, \<^verbatim>\<open>test_indented_nested\<close>,
  \<^verbatim>\<open>test_indented_from_start\<close>, \<^verbatim>\<open>test_indented_complex\<close> and \<^verbatim>\<open>test_indented_messed\<close> of
  \<^verbatim>\<open>tests/test_note_parser.py\<close>.
\<close>

definition test_indented_dom :: "node list" where
  "test_indented_dom = [Div 0 ''test1'', Div 40 ''test2'', Div 0 ''test3'']"

definition test_indented_expected :: "block list" where
  "test_indented_expected =
     [Block (NotionTextBlock ''test1'') [Block (NotionTextBlock ''test2'') []],
      Block (NotionTextBlock ''test3'') []]"

definition test_indented_nested_dom :: "node list" where
  "test_indented_nested_dom =
     [Div 0 ''test1'', Div 40 ''test2'', Div 80 ''test3'', Div 120 ''test4'', Div 160 ''test5'']"

definition test_indented_nested_expected :: "block list" where
  "test_indented_nested_expected =
     [Block (NotionTextBlock ''test1'')
        [Block (NotionTextBlock ''test2'')
           [Block (NotionTextBlock ''test3'')
              [Block (NotionTextBlock ''test4'')
                 [Block (NotionTextBlock ''test5'') []]]]]]"

definition test_indented_from_start_dom :: "node list" where
  "test_indented_from_start_dom = [Div 40 ''test1'']"

definition test_indented_from_start_expected :: "block list" where
  "test_indented_from_start_expected =
     [Block (NotionTextBlock []) [Block (NotionTextBlock ''test1'') []]]"

definition test_indented_complex_dom :: "node list" where
  "test_indented_complex_dom =
     [Div 0 ''test1'', Div 40 ''test2'', Div 40 ''test3'', Div 80 ''test4'', Div 80 ''test5'',
      Div 120 ''test6'', Div 40 ''test7'', Div 0 ''test8'', Div 0 ''test9'']"

definition test_indented_complex_expected :: "block list" where
  "test_indented_complex_expected =
     [Block (NotionTextBlock ''test1'')
        [Block (NotionTextBlock ''test2'') [],
         Block (NotionTextBlock ''test3'')
           [Block (NotionTextBlock ''test4'') [],
            Block (NotionTextBlock ''test5'') [Block (NotionTextBlock ''test6'') []]],
         Block (NotionTextBlock ''test7'') []],
      Block (NotionTextBlock ''test8'') [],
      Block (NotionTextBlock ''test9'') []]"

definition test_indented_messed_dom :: "node list" where
  "test_indented_messed_dom = [Div 0 ''test1'', Div 80 ''test2'', Div 40 ''test3'']"

definition test_indented_messed_expected :: "block list" where
  "test_indented_messed_expected =
     [Block (NotionTextBlock ''test1'')
        [Block (NotionTextBlock ''        test2'') [],
         Block (NotionTextBlock ''    test3'') []]]"

text \<open>
  The table of \<^verbatim>\<open>test_table_padded\<close>, the notes of \<^verbatim>\<open>test_bad_resource\<close>, \<^verbatim>\<open>test_bad_note\<close>
  and \<^verbatim>\<open>test_note_with_meta\<close> of \<^verbatim>\<open>tests/test_note_parser.py\<close>, and what \<^verbatim>\<open>bs4\<close> makes of
  their contents.
\<close>

definition test_table_padded_rows :: "cell list list" where
  "test_table_padded_rows =
     [[\<lparr>cell_text = ''test1'', colspan = 2\<rparr>],
      [\<lparr>cell_text = ''test2'', colspan = 1\<rparr>, \<lparr>cell_text = ''test3'', colspan = 1\<rparr>]]"

definition test_bad_resource_note :: evernote_note where
  \<open>test_bad_resource_note =
     \<lparr>note_title = ''test1'', note_created = ''2021-11-18T00:00:00+00:00'',
      note_updated = ''2021-11-18T00:00:00+00:00'',
      note_content = ''<en-note><en-media type="fake/mime" hash="fake_hash" /></en-note>'',
      note_tags = [], note_url = [], note_resources = []\<rparr>\<close>


definition test_note_with_meta :: evernote_note where
  "test_note_with_meta =
     \<lparr>note_title = ''test1'', note_created = ''2021-11-18T00:00:00+00:00'',
      note_updated = ''2021-11-18T00:00:00+00:00'',
      note_content = ''<en-note><div>test</div></en-note>'',
      note_tags = [''tag1'', ''tag2''], note_url = ''https://google.com'', note_resources = []\<rparr>"

definition test_markup :: "string \<Rightarrow> node list option" where
  "test_markup c =
     (if c = note_content test_bad_resource_note then Some [EnMedia ''fake/mime'' ''fake_hash'']
      else if c = note_content test_note_with_meta then Some [Div 0 ''test'']
      else None)"

section \<open>Facts about the string operations\<close>

lemma str_in_iff: "str_in needle hay \<longleftrightarrow> (\<exists>a b. hay = a @ needle @ b)"
proof (induction hay)
  case Nil
  then show ?case by auto
next
  case (Cons c cs)
  show ?case
  proof
    assume "str_in needle (c # cs)"
    then consider "prefix needle (c # cs)" | "str_in needle cs" by auto
    then show "\<exists>a b. c # cs = a @ needle @ b"
    proof cases
      case 1
      then obtain b where "c # cs = needle @ b" by (auto simp: prefix_def)
      then have "c # cs = [] @ needle @ b" by simp
      then show ?thesis by blast
    next
      case 2
      with Cons obtain a b where "cs = a @ needle @ b" by blast
      then have "c # cs = (c # a) @ needle @ b" by simp
      then show ?thesis by blast
    qed
  next
    assume "\<exists>a b. c # cs = a @ needle @ b"
    then obtain a b where ab: "c # cs = a @ needle @ b" by blast
    show "str_in needle (c # cs)"
    proof (cases a)
      case Nil
      with ab have "prefix needle (c # cs)" by (simp add: prefix_def)
      then show ?thesis by simp
    next
      case (Cons x a')
      with ab have "cs = a' @ needle @ b" by simp
      with Cons.IH have "str_in needle cs" by blast
      then show ?thesis by simp
    qed
  qed
qed



lemma split_on_not_Nil: "split_on sep s \<noteq> []"
  by (induction s) (auto split: list.splits)

lemma split_on_no_sep: "sep \<notin> set s \<Longrightarrow> split_on sep s = [s]"
  by (induction s) auto

lemma split_on_append: "split_on sep (a @ sep # b) = split_on sep a @ split_on sep b"
proof (induction a)
  case Nil
  show ?case by simp
next
  case (Cons c a)
  obtain p ps where "split_on sep a = p # ps"
    using split_on_not_Nil [of sep a] by (cases "split_on sep a") auto
  with Cons show ?case by (auto split: list.splits)
qed

lemma index_neg2_split_on:
  assumes "url = pre @ sep # seg @ sep # lst" and "sep \<notin> set seg" and "sep \<notin> set lst"
  shows "index_neg2 (split_on sep url) = Inr seg"
proof -
  have "split_on sep url = split_on sep pre @ [seg, lst]"
    using assms by (simp add: split_on_append split_on_no_sep)
  then show ?thesis by (simp add: index_neg2_def nth_append)
qed

lemma first_match_value:
  assumes "d = before @ (k, v) # after" and "P k" and "\<forall>(k', v')\<in>set before. \<not> P k'"
  shows "[v. (k, v) \<leftarrow> d, P k] = v # [v. (k, v) \<leftarrow> after, P k]"
proof -
  have "[v. (k, v) \<leftarrow> before, P k] = []"
    using assms(3) by (induction before) auto
  with assms(1,2) show ?thesis by simp
qed

lemma no_match_value:
  assumes "\<forall>(k', v')\<in>set d. \<not> P k'"
  shows "[v. (k, v) \<leftarrow> d, P k] = []"
  using assms by (induction d) auto

section \<open>The loop of resolve\_string\_properties\<close>

lemma add_property_union: "add_property r P = P \<union> add_property r {}"
  by (cases r) (auto simp: add_property_def)

lemma resolve_loop_fst:
  "fst (resolve_loop env tags (P, l)) = P \<union> (\<Union>t\<in>set tags. tag_properties env t)"
proof (induction tags arbitrary: P l)
  case Nil
  show ?case by simp
next
  case (Cons tg tags)
  show ?case
  proof (cases "tag_map env (name tg)")
    case None
    then show ?thesis using Cons.IH [of P l] by (simp add: tag_properties_def)
  next
    case (Some handler)
    obtain r l' where h: "handler tg = (r, l')" by (cases "handler tg")
    have "fst (resolve_loop env (tg # tags) (P, l))
            = add_property r P \<union> (\<Union>t\<in>set tags. tag_properties env t)"
      using Some h Cons.IH [of "add_property r P" "l @ l'"] by simp
    moreover have "tag_properties env tg = add_property r {}"
      using Some h by (simp add: tag_properties_def)
    ultimately show ?thesis
      using add_property_union [of r P] by auto
  qed
qed

lemma resolve_string_properties_fst:
  "fst (resolve_string_properties env tags) = (\<Union>t\<in>set tags. tag_properties env t)"
  by (simp add: resolve_string_properties_def resolve_loop_fst)

lemma tag_map_None_iff:
  "tag_map env n = None \<longleftrightarrow> n \<notin> set [''b'', ''i'', ''u'', ''s'', ''span'', ''a'']"
  by (simp add: tag_map_def)

lemma tag_properties_unhandled:
  "name t \<notin> set [''b'', ''i'', ''u'', ''s'', ''span'', ''a''] \<Longrightarrow> tag_properties env t = {}"
  using tag_map_None_iff [of env "name t"] by (simp add: tag_properties_def)

section \<open>Links\<close>

lemma resolve_link_not_found:
  "tag_get tg ''href'' = Some href \<Longrightarrow> str_in ''evernote://'' href \<Longrightarrow>
   get_notion_url env href = Inr None \<Longrightarrow>
   resolve_link env tg
     = (PyTuple [''a'', href], [(Error, ''Notion URL retrieval failed: '' @ href)])"
  by (auto simp: resolve_link_def)

lemma resolve_link_raised:
  "tag_get tg ''href'' = Some href \<Longrightarrow> str_in ''evernote://'' href \<Longrightarrow>
   get_notion_url env href = Inl e \<Longrightarrow>
   resolve_link env tg
     = (PyNone, [(Error, ''Notion URL retrieval failed: '' @ href
                         @ '' with exception '' @ exc_str e)])"
  by (auto simp: resolve_link_def)

text \<open>
  Claim C1. An anchor with an internal link whose lookup fails should still give a link
  property carrying the original href. When the lookup returns no URL this is so
  (\<open>resolve_link_not_found\<close>). When the lookup raises (\<open>resolve_link_raised\<close>), the
  failure is logged but no property is returned. Below, the link dictionary has no entry
  for the link, the subscript \<^verbatim>\<open>[0]\<close> raises \<^verbatim>\<open>IndexError\<close>, and the anchor contributes
  nothing to the property set.
\<close>

theorem resolve_link_exception_returns_None:
  "resolve_link plain_env \<lparr>name = ''a'', attrs = [(''href'', ''evernote:///view/1/s1/abc/abc/'')]\<rparr>
     = (PyNone,
        [(Error, ''Notion URL retrieval failed: evernote:///view/1/s1/abc/abc/''
                 @ '' with exception list index out of range'')])
   \<and> fst (resolve_string_properties plain_env
        [\<lparr>name = ''a'', attrs = [(''href'', ''evernote:///view/1/s1/abc/abc/'')]\<rparr>]) = {}"
  by (simp add: resolve_string_properties_def tag_map_def add_property_def truthy_def
      resolve_link_def tag_get_def get_notion_url_def get_evernote_title_def plain_env_def
      index_neg2_def exc_str_def)



text \<open>
  Claim C3, as the code has it. The whole href is looked up in the dictionary by exact
  key match. Only when it is no key is the identifier taken, the second-to-last segment of
  the href between slashes, lower-cased; the title is then the value of the first entry,
  in iteration order, whose lower-cased key contains the identifier, and \<^verbatim>\<open>IndexError\<close> is
  raised when no key contains it.
\<close>

theorem get_evernote_title_lookup:
  assumes "links_dict env = Inr d"
  shows "(map_of d url = Some v \<longrightarrow> get_evernote_title env url = Inr v)
     \<and> (url \<notin> fst ` set d \<and> url = pre @ ''/'' @ seg @ ''/'' @ lst
          \<and> CHR ''/'' \<notin> set seg \<and> CHR ''/'' \<notin> set lst \<longrightarrow>
          (d = before @ (k, t) # after
             \<and> (\<exists>a b. lower k = a @ lower seg @ b)
             \<and> (\<forall>(k', t')\<in>set before. \<not> (\<exists>a b. lower k' = a @ lower seg @ b))
           \<longrightarrow> get_evernote_title env url = Inr t)
        \<and> ((\<forall>(k', t')\<in>set d. \<not> (\<exists>a b. lower k' = a @ lower seg @ b))
           \<longrightarrow> get_evernote_title env url = Inl IndexError))"
proof (intro conjI impI)
  assume m: "map_of d url = Some v"
  then have "url \<in> fst ` set d" by (meson domI domIff map_of_eq_None_iff)
  with m assms show "get_evernote_title env url = Inr v"
    by (simp add: get_evernote_title_def)
next
  assume a: "url \<notin> fst ` set d \<and> url = pre @ ''/'' @ seg @ ''/'' @ lst
          \<and> CHR ''/'' \<notin> set seg \<and> CHR ''/'' \<notin> set lst"
  then have seg: "index_neg2 (split_on CHR ''/'' url) = Inr seg"
    using index_neg2_split_on [of url pre "CHR ''/''" seg lst] by simp
  from a have nk: "url \<notin> set (map fst d)" by auto
  {
    assume b: "d = before @ (k, t) # after
             \<and> (\<exists>a b. lower k = a @ lower seg @ b)
             \<and> (\<forall>(k', t')\<in>set before. \<not> (\<exists>a b. lower k' = a @ lower seg @ b))"
    have e: "[v. (k, v) \<leftarrow> d, str_in (lower seg) (lower k)]
            = t # [v. (k, v) \<leftarrow> after, str_in (lower seg) (lower k)]"
      using b first_match_value [of d before k t after "\<lambda>k. str_in (lower seg) (lower k)"]
      by (simp add: str_in_iff)
    show "get_evernote_title env url = Inr t"
      using nk seg assms by (simp add: get_evernote_title_def e del: set_map)
  }
  {
    assume c: "\<forall>(k', t')\<in>set d. \<not> (\<exists>a b. lower k' = a @ lower seg @ b)"
    have e: "[v. (k, v) \<leftarrow> d, str_in (lower seg) (lower k)] = []"
      using c no_match_value [of d "\<lambda>k. str_in (lower seg) (lower k)"]
      by (simp add: str_in_iff)
    show "get_evernote_title env url = Inl IndexError"
      using nk seg assms by (simp add: get_evernote_title_def e del: set_map)
  }
qed

theorem get_evernote_title_lookup_witness:
  "get_evernote_title links_env ''evernote:///view/1/s1/AAA-1/AAA-1/'' = Inr ''First''
   \<and> get_evernote_title links_env ''evernote:///view/7/s7/aBc-2/aBc-2/'' = Inr ''Second''
   \<and> get_evernote_title links_env ''evernote:///view/7/s7/zzz/zzz/'' = Inl IndexError"
proof -
  let ?k1 = "''evernote:///view/1/s1/AAA-1/AAA-1/''"
  let ?k2 = "''evernote:///view/1/s1/ABC-2/ABC-2/''"
  let ?k3 = "''evernote:///view/9/s9/abc-2/abc-2/''"
  let ?d = "[(?k1, ''First''), (?k2, ''Second''), (?k3, ''Third'')]"
  have d: "links_dict links_env = Inr ?d" by (simp add: links_env_def)
  have exact: "map_of ?d ?k1 = Some ''First''" by simp
  have l1: "lower ?k1 = ''evernote:///view/1/s1/aaa-1/aaa-1/''" by code_simp
  have l2: "lower ?k2 = ''evernote:///view/1/s1/abc-2/abc-2/''" by code_simp
  have l3: "lower ?k3 = ''evernote:///view/9/s9/abc-2/abc-2/''" by code_simp
  have la: "lower ''aBc-2'' = ''abc-2''" by code_simp
  have lz: "lower ''zzz'' = ''zzz''" by code_simp
  have in2: "str_in (lower ''aBc-2'') (lower ?k2)" unfolding la l2 by simp
  have out1: "\<not> str_in (lower ''aBc-2'') (lower ?k1)" unfolding la l1 by simp
  have z1: "\<not> str_in (lower ''zzz'') (lower ?k1)" unfolding lz l1 by simp
  have z2: "\<not> str_in (lower ''zzz'') (lower ?k2)" unfolding lz l2 by simp
  have z3: "\<not> str_in (lower ''zzz'') (lower ?k3)" unfolding lz l3 by simp
  have fb: "''evernote:///view/7/s7/aBc-2/aBc-2/'' \<notin> fst ` set ?d
      \<and> ''evernote:///view/7/s7/aBc-2/aBc-2/''
          = ''evernote:///view/7/s7/aBc-2'' @ ''/'' @ ''aBc-2'' @ ''/'' @ []
      \<and> CHR ''/'' \<notin> set ''aBc-2'' \<and> CHR ''/'' \<notin> set []"
    by simp
  have first: "?d = [(?k1, ''First'')] @ (?k2, ''Second'') # [(?k3, ''Third'')]
      \<and> (\<exists>a b. lower ?k2 = a @ lower ''aBc-2'' @ b)
      \<and> (\<forall>(k', t')\<in>set [(?k1, ''First'')]. \<not> (\<exists>a b. lower k' = a @ lower ''aBc-2'' @ b))"
    unfolding str_in_iff [symmetric] using in2 out1 by simp
  have nm: "''evernote:///view/7/s7/zzz/zzz/'' \<notin> fst ` set ?d
      \<and> ''evernote:///view/7/s7/zzz/zzz/'' = ''evernote:///view/7/s7/zzz'' @ ''/'' @ ''zzz'' @ ''/'' @ []
      \<and> CHR ''/'' \<notin> set ''zzz'' \<and> CHR ''/'' \<notin> set []"
    by simp
  have none: "\<forall>(k', t')\<in>set ?d. \<not> (\<exists>a b. lower k' = a @ lower ''zzz'' @ b)"
    unfolding str_in_iff [symmetric] using z1 z2 z3 by simp
  note T1 = get_evernote_title_lookup [OF d, where url = ?k1 and v = "''First''"]
  note T2 = get_evernote_title_lookup [OF d, where url = "''evernote:///view/7/s7/aBc-2/aBc-2/''"
        and pre = "''evernote:///view/7/s7/aBc-2''" and seg = "''aBc-2''" and lst = "[]"
        and before = "[(?k1, ''First'')]" and k = ?k2 and t = "''Second''"
        and after = "[(?k3, ''Third'')]"]
  note T3 = get_evernote_title_lookup [OF d, where url = "''evernote:///view/7/s7/zzz/zzz/''"
        and pre = "''evernote:///view/7/s7/zzz''" and seg = "''zzz''" and lst = "[]"]
  have c1: "get_evernote_title links_env ?k1 = Inr ''First''"
    by (rule mp [OF conjunct1 [OF T1] exact])
  have c2: "get_evernote_title links_env ''evernote:///view/7/s7/aBc-2/aBc-2/'' = Inr ''Second''"
    by (rule mp [OF conjunct1 [OF mp [OF conjunct2 [OF T2] fb]] first])
  have c3: "get_evernote_title links_env ''evernote:///view/7/s7/zzz/zzz/'' = Inl IndexError"
    by (rule mp [OF conjunct2 [OF mp [OF conjunct2 [OF T3] nm]] none])
  from c1 c2 c3 show ?thesis by (intro conjI)
qed

text \<open>
  Claim C3 as stated looks the identifier up by exact key match. Here the identifier
  \<open>abc\<close> is a key of the dictionary, and the title returned is that of another key, the
  first one that contains \<open>abc\<close>.
\<close>

theorem get_evernote_title_exact_id_counterexample:
  "links_dict id_keys_env = Inr [(''xabcx'', ''wrong''), (''abc'', ''right'')]
   \<and> index_neg2 (split_on CHR ''/'' ''evernote:///view/abc/'') = Inr ''abc''
   \<and> map_of [(''xabcx'', ''wrong''), (''abc'', ''right'')] ''abc'' = Some ''right''
   \<and> get_evernote_title id_keys_env ''evernote:///view/abc/'' = Inr ''wrong''"
proof -
  have l: "lower ''abc'' = ''abc''" "lower ''xabcx'' = ''xabcx''" by code_simp+
  have i: "index_neg2 (split_on CHR ''/'' ''evernote:///view/abc/'') = Inr ''abc''"
    by (simp add: index_neg2_def)
  have "get_evernote_title id_keys_env ''evernote:///view/abc/'' = Inr ''wrong''"
    by (simp add: id_keys_env_def get_evernote_title_def index_neg2_def l)
  with i show ?thesis by (simp add: id_keys_env_def)
qed

section \<open>The search for the destination page\<close>

lemma first_exact_Some:
  "first_exact title results = Inr (Some u) \<Longrightarrow>
     \<exists>r\<in>set results. result_title r = Inr title \<and> page_url r = u"
  by (induction results) (auto split: sum.splits if_splits)

lemma first_exact_None:
  "\<forall>r\<in>set results. \<exists>t. result_title r = Inr t \<and> t \<noteq> title \<Longrightarrow>
     first_exact title results = Inr None"
  by (induction results) (auto split: sum.splits)

lemma first_exact_first:
  "\<forall>p\<in>set before. \<exists>t. result_title p = Inr t \<and> t \<noteq> title \<Longrightarrow>
     result_title r = Inr title \<Longrightarrow>
     first_exact title (before @ r # after) = Inr (Some (page_url r))"
  by (induction before) (auto split: sum.splits)

text \<open>
  Claim C4, as the code has it. The title is first passed through \<^verbatim>\<open>html.unescape\<close>. A URL
  is returned only for a result whose title equals the unescaped title; when every result
  has a title and none equals the unescaped title the lookup yields \<^verbatim>\<open>None\<close>; and the URL
  is that of the first result whose title is equal, when the results before it have
  titles.
\<close>

theorem get_notion_url_from_title_exact:
  assumes "notion_search env ([CHR 0x22] @ html_unescape env title @ [CHR 0x22]) = Inr results"
  shows "(get_notion_url_from_title env title = Inr (Some u) \<longrightarrow>
            (\<exists>r\<in>set results. result_title r = Inr (html_unescape env title) \<and> page_url r = u))
     \<and> ((\<forall>r\<in>set results. \<exists>t. result_title r = Inr t \<and> t \<noteq> html_unescape env title) \<longrightarrow>
            get_notion_url_from_title env title = Inr None)
     \<and> (results = before @ r # after
          \<and> (\<forall>p\<in>set before. \<exists>t. result_title p = Inr t \<and> t \<noteq> html_unescape env title)
          \<and> result_title r = Inr (html_unescape env title) \<longrightarrow>
            get_notion_url_from_title env title = Inr (Some (page_url r)))"
  using assms first_exact_Some [of "html_unescape env title" results u]
    first_exact_None [of results "html_unescape env title"]
    first_exact_first [of before "html_unescape env title" r after]
  by (simp add: get_notion_url_from_title_def)

theorem get_notion_url_from_title_exact_witness:
  "get_notion_url_from_title links_env ''A &amp; B'' = Inr (Some ''https://www.notion.so/p1'')
   \<and> get_notion_url_from_title links_env ''Missing'' = Inr None"
proof -
  let ?p0 = "\<lparr>page_title = Some [''Other''], page_url = ''https://www.notion.so/p0''\<rparr>"
  let ?p1 = "\<lparr>page_title = Some [''A & B''], page_url = ''https://www.notion.so/p1''\<rparr>"
  have s1: "notion_search links_env ([CHR 0x22] @ html_unescape links_env ''A &amp; B'' @ [CHR 0x22])
      = Inr [?p0, ?p1]"
    by (simp add: links_env_def)
  have s2: "notion_search links_env ([CHR 0x22] @ html_unescape links_env ''Missing'' @ [CHR 0x22])
      = Inr [?p0, ?p1]"
    by (simp add: links_env_def)
  have f: "[?p0, ?p1] = [?p0] @ ?p1 # []
      \<and> (\<forall>p\<in>set [?p0]. \<exists>t. result_title p = Inr t \<and> t \<noteq> html_unescape links_env ''A &amp; B'')
      \<and> result_title ?p1 = Inr (html_unescape links_env ''A &amp; B'')"
    by (simp add: links_env_def result_title_def)
  have n: "\<forall>r\<in>set [?p0, ?p1]. \<exists>t. result_title r = Inr t \<and> t \<noteq> html_unescape links_env ''Missing''"
    by (simp add: links_env_def result_title_def)
  note T1 = get_notion_url_from_title_exact [OF s1, where before = "[?p0]" and r = ?p1 and after = "[]"]
  note T2 = get_notion_url_from_title_exact [OF s2]
  have "get_notion_url_from_title links_env ''A &amp; B'' = Inr (Some (page_url ?p1))"
    by (rule mp [OF conjunct2 [OF conjunct2 [OF T1]] f])
  moreover have "get_notion_url_from_title links_env ''Missing'' = Inr None"
    by (rule mp [OF conjunct1 [OF conjunct2 [OF T2]] n])
  ultimately show ?thesis by simp
qed

text \<open>
  Claim C4 as stated compares with the resolved title itself. For the resolved title
  \<^verbatim>\<open>A &amp; B\<close> no result has that title, and the lookup returns the URL of the page
  titled \<^verbatim>\<open>A & B\<close>.
\<close>

theorem get_notion_url_from_title_unescaped_counterexample:
  "notion_search links_env ([CHR 0x22] @ html_unescape links_env ''A &amp; B'' @ [CHR 0x22])
     = Inr [\<lparr>page_title = Some [''Other''], page_url = ''https://www.notion.so/p0''\<rparr>,
            \<lparr>page_title = Some [''A & B''], page_url = ''https://www.notion.so/p1''\<rparr>]
   \<and> result_title \<lparr>page_title = Some [''Other''], page_url = ''https://www.notion.so/p0''\<rparr>
       \<noteq> Inr ''A &amp; B''
   \<and> result_title \<lparr>page_title = Some [''A & B''], page_url = ''https://www.notion.so/p1''\<rparr>
       \<noteq> Inr ''A &amp; B''
   \<and> get_notion_url_from_title links_env ''A &amp; B'' = Inr (Some ''https://www.notion.so/p1'')"
  by (simp add: links_env_def get_notion_url_from_title_def result_title_def)

section \<open>Styled spans\<close>



section \<open>The result is a set\<close>

text \<open>
  Claim C10. The property set depends only on the set of the tags: it is the same for two
  lists with the same elements, whatever their order and repetitions; tags named
  otherwise than \<open>b\<close>, \<open>i\<close>, \<open>u\<close>, \<open>s\<close>, \<open>span\<close>, \<open>a\<close> can be dropped without changing it;
  and two bold tags give the one property \<^verbatim>\<open>("b",)\<close>.
\<close>

theorem resolve_string_properties_is_set:
  "(set tags = set tags' \<longrightarrow>
      fst (resolve_string_properties env tags) = fst (resolve_string_properties env tags'))
   \<and> fst (resolve_string_properties env tags)
       = fst (resolve_string_properties env
                (filter (\<lambda>t. name t \<in> set [''b'', ''i'', ''u'', ''s'', ''span'', ''a'']) tags))
   \<and> (name tg = ''b'' \<longrightarrow> fst (resolve_string_properties env [tg, tg]) = {[''b'']})"
proof (intro conjI impI)
  assume "set tags = set tags'"
  then show "fst (resolve_string_properties env tags) = fst (resolve_string_properties env tags')"
    by (simp add: resolve_string_properties_fst)
next
  have "(\<Union>t\<in>set tags. tag_properties env t)
          = (\<Union>t\<in>{t \<in> set tags. name t \<in> set [''b'', ''i'', ''u'', ''s'', ''span'', ''a'']}.
               tag_properties env t)"
    using tag_properties_unhandled [of _ env] by blast
  then show "fst (resolve_string_properties env tags)
       = fst (resolve_string_properties env
                (filter (\<lambda>t. name t \<in> set [''b'', ''i'', ''u'', ''s'', ''span'', ''a'']) tags))"
    by (simp only: resolve_string_properties_fst set_filter)
next
  assume "name tg = ''b''"
  then have "tag_properties env tg = {[''b'']}"
    by (simp add: tag_properties_def tag_map_def add_property_def truthy_def)
  then show "fst (resolve_string_properties env [tg, tg]) = {[''b'']}"
    by (simp add: resolve_string_properties_fst)
qed

theorem resolve_string_properties_is_set_witness:
  "set [\<lparr>name = ''b'', attrs = []\<rparr>, \<lparr>name = ''i'', attrs = []\<rparr>, \<lparr>name = ''b'', attrs = []\<rparr>]
     = set [\<lparr>name = ''i'', attrs = []\<rparr>, \<lparr>name = ''b'', attrs = []\<rparr>]
   \<and> fst (resolve_string_properties plain_env
        [\<lparr>name = ''b'', attrs = []\<rparr>, \<lparr>name = ''i'', attrs = []\<rparr>, \<lparr>name = ''b'', attrs = []\<rparr>])
     = fst (resolve_string_properties plain_env
        [\<lparr>name = ''i'', attrs = []\<rparr>, \<lparr>name = ''b'', attrs = []\<rparr>])
   \<and> fst (resolve_string_properties plain_env
        [\<lparr>name = ''div'', attrs = []\<rparr>, \<lparr>name = ''u'', attrs = []\<rparr>, \<lparr>name = ''em'', attrs = []\<rparr>])
     = fst (resolve_string_properties plain_env [\<lparr>name = ''u'', attrs = []\<rparr>])
   \<and> fst (resolve_string_properties plain_env
        [\<lparr>name = ''b'', attrs = []\<rparr>, \<lparr>name = ''b'', attrs = []\<rparr>]) = {[''b'']}"
proof -
  let ?b = "\<lparr>name = ''b'', attrs = [] :: (string \<times> string) list\<rparr>"
  let ?i = "\<lparr>name = ''i'', attrs = [] :: (string \<times> string) list\<rparr>"
  let ?u = "\<lparr>name = ''u'', attrs = [] :: (string \<times> string) list\<rparr>"
  let ?d = "\<lparr>name = ''div'', attrs = [] :: (string \<times> string) list\<rparr>"
  let ?e = "\<lparr>name = ''em'', attrs = [] :: (string \<times> string) list\<rparr>"
  have s: "set [?b, ?i, ?b] = set [?i, ?b]" by auto
  show ?thesis
    using s resolve_string_properties_is_set [of "[?b, ?i, ?b]" "[?i, ?b]" plain_env ?b]
      resolve_string_properties_is_set [of "[?d, ?u, ?e]" "[?d, ?u, ?e]" plain_env ?b]
    by simp
qed

section \<open>The tests of the note parser\<close>

text \<open>
  The model of the indentation builder gives the forests that the five indentation tests
  expect, and the model of \<^verbatim>\<open>parse_note\<close> the blocks of \<^verbatim>\<open>test_note_with_meta\<close>.
\<close>

lemma test_indented_holds: "parse_note_dom test_indented_dom = test_indented_expected"
  by code_simp

lemma test_indented_nested_holds:
  "parse_note_dom test_indented_nested_dom = test_indented_nested_expected"
  by code_simp

lemma test_indented_from_start_holds:
  "parse_note_dom test_indented_from_start_dom = test_indented_from_start_expected"
  by code_simp

lemma test_indented_complex_holds:
  "parse_note_dom test_indented_complex_dom = test_indented_complex_expected"
  by code_simp

lemma test_indented_messed_holds:
  "parse_note_dom test_indented_messed_dom = test_indented_messed_expected"
  by code_simp

lemma test_note_with_meta_holds:
  "parse_note test_markup test_note_with_meta True
     = ([Block (NotionCalloutBlock (''Created: 2021-11-18T00:00:00+00:00'' @ [newline]
                         @ ''Updated: 2021-11-18T00:00:00+00:00'' @ [newline]
                         @ ''URL: https://google.com'' @ [newline]
                         @ ''Tags: tag1, tag2'')) [],
         Block (NotionTextBlock ''test'') []], [])"
  by code_simp

section \<open>The indentation builder\<close>















lemma dispatch_childless: "\<exists>p. fst (dispatch n) = Block p []"
  by (cases n) (simp_all add: dispatch_def)




section \<open>Tables\<close>

lemma longest_row_ge: "r \<in> set rows \<Longrightarrow> length r \<le> longest_row rows"
  by (induction rows) (auto simp: longest_row_def)

lemma longest_row_attained: "rows \<noteq> [] \<Longrightarrow> \<exists>r\<in>set rows. length r = longest_row rows"
proof (induction rows)
  case Nil
  then show ?case by simp
next
  case (Cons r rows)
  show ?case
  proof (cases "rows = []")
    case True
    then show ?thesis by (simp add: longest_row_def)
  next
    case False
    with Cons.IH obtain r' where "r' \<in> set rows" "length r' = longest_row rows" by blast
    then show ?thesis by (cases "length r \<le> longest_row rows") (auto simp: longest_row_def max_def)
  qed
qed

lemma length_pad_row: "length r \<le> n \<Longrightarrow> length (pad_row n r) = n"
  by (simp add: pad_row_def)

lemma length_row_cells: "length (row_cells r) = (\<Sum>c\<leftarrow>r. max 1 (colspan c))"
  by (induction r) (auto simp: row_cells_def expand_cell_def)

text \<open>
  Claim C9. The table built from the rows of cells has as many rows as the input; every
  row has as many columns as the longest row (the maximum of the rows' column counts, a cell
  counting for its column span); and every row is its own cells, each followed by the
  empty-text placeholders of its span, then empty-text cells on the right.
\<close>

theorem table_rows_rectangular:
  "length (table_rows t) = length t
   \<and> (\<forall>r\<in>set (table_rows t). length r = longest_row (map row_cells t))
   \<and> (\<forall>r\<in>set t. length (row_cells r) \<le> longest_row (map row_cells t))
   \<and> (t \<noteq> [] \<longrightarrow> (\<exists>r\<in>set t. length (row_cells r) = longest_row (map row_cells t)))
   \<and> (\<forall>i<length t. table_rows t ! i
         = row_cells (t ! i)
           @ replicate (longest_row (map row_cells t) - length (row_cells (t ! i))) [])
   \<and> (\<forall>r\<in>set t. length (row_cells r) = (\<Sum>c\<leftarrow>r. max 1 (colspan c)))
   \<and> (\<forall>c. expand_cell c = cell_text c # replicate (colspan c - 1) [])"
proof (intro conjI)
  show "length (table_rows t) = length t" by (simp add: table_rows_def)
  show "\<forall>r\<in>set (table_rows t). length r = longest_row (map row_cells t)"
    using longest_row_ge [of _ "map row_cells t"]
    by (auto simp: table_rows_def Let_def length_pad_row)
  show "\<forall>r\<in>set t. length (row_cells r) \<le> longest_row (map row_cells t)"
    using longest_row_ge [of _ "map row_cells t"] by auto
  show "t \<noteq> [] \<longrightarrow> (\<exists>r\<in>set t. length (row_cells r) = longest_row (map row_cells t))"
    using longest_row_attained [of "map row_cells t"] by auto
  show "\<forall>i<length t. table_rows t ! i
         = row_cells (t ! i)
           @ replicate (longest_row (map row_cells t) - length (row_cells (t ! i))) []"
    by (simp add: table_rows_def Let_def pad_row_def)
  show "\<forall>r\<in>set t. length (row_cells r) = (\<Sum>c\<leftarrow>r. max 1 (colspan c))"
    by (simp add: length_row_cells)
  show "\<forall>c. expand_cell c = cell_text c # replicate (colspan c - 1) []"
    by (simp add: expand_cell_def)
qed

theorem table_rows_rectangular_witness:
  "table_rows test_table_padded_rows = [[''test1'', []], [''test2'', ''test3'']]
   \<and> parse_note_dom [TableNode test_table_padded_rows]
       = [Block (NotionTableBlock [[''test1'', []], [''test2'', ''test3'']]) []]
   \<and> longest_row (map row_cells test_table_padded_rows) = 2
   \<and> length (table_rows test_table_padded_rows ! 0) = 2
   \<and> length (table_rows test_table_padded_rows ! 1) = 2"
proof -
  have e: "table_rows test_table_padded_rows = [[''test1'', []], [''test2'', ''test3'']]"
    by code_simp
  have p: "parse_note_dom [TableNode test_table_padded_rows]
       = [Block (NotionTableBlock [[''test1'', []], [''test2'', ''test3'']]) []]"
    by code_simp
  have l: "longest_row (map row_cells test_table_padded_rows) = 2" by code_simp
  have "\<forall>r\<in>set (table_rows test_table_padded_rows).
          length r = longest_row (map row_cells test_table_padded_rows)"
    using table_rows_rectangular [of test_table_padded_rows] by blast
  then have "length (table_rows test_table_padded_rows ! 0) = 2"
    and "length (table_rows test_table_padded_rows ! 1) = 2"
    unfolding l by (simp_all add: e)
  with e p l show ?thesis by simp
qed

section \<open>Unresolved resources\<close>







section \<open>Notes that cannot be parsed\<close>



end
